theory Spec2Isabelle
  imports Main
begin

section \<open>Python values used by the ingestion and retrieval pipeline\<close>

text \<open>
  Strings are \<open>string\<close> (lists of \<open>char\<close>); one \<open>char\<close> stands for one code point of a
  Python \<open>str\<close>, so the model covers text whose code points are below 256 and \<open>length\<close>
  is Python's \<open>len\<close> there.

  An exception is a value: its class, as far as the sources tell classes apart
  (\<open>except FileNotFoundError\<close> before \<open>except Exception\<close>, \<open>raise ValueError\<close>), and the
  text that \<open>str(e)\<close> gives. Every exception modelled is an instance of \<open>Exception\<close>,
  which is what the \<open>except\<close> clauses of the sources catch; \<open>KeyboardInterrupt\<close> and
  \<open>SystemExit\<close> are not.
\<close>

datatype exn = FileNotFoundError string | ValueError string | Exception string

fun str_exn :: "exn \<Rightarrow> string" where
  "str_exn (FileNotFoundError m) = m"
| "str_exn (ValueError m) = m"
| "str_exn (Exception m) = m"

text \<open>\<open>str.isspace\<close> on one code point below 256: tab to carriage return, the four
  separators 28 to 31, space, NEL (133) and the no-break space (160).\<close>

definition isspace :: "char \<Rightarrow> bool" where
  "isspace c = (let n = (of_char c :: nat)
                in (9 \<le> n \<and> n \<le> 13) \<or> (28 \<le> n \<and> n \<le> 32) \<or> n = 133 \<or> n = 160)"

text \<open>\<open>str.strip()\<close>: whitespace removed at both ends.\<close>

definition strip :: "string \<Rightarrow> string" where
  "strip s = rev (dropWhile isspace (rev (dropWhile isspace s)))"

text \<open>\<open>str(i)\<close> for the non-negative integers of \<open>range(len(chunks))\<close>, as an f-string
  formats them: decimal digits, most significant first, no leading zero.\<close>

definition digit_char :: "nat \<Rightarrow> char" where
  "digit_char d = char_of (48 + d)"

function str_nat :: "nat \<Rightarrow> string" where
  "str_nat n = (if n < 10 then [digit_char n] else str_nat (n div 10) @ [digit_char (n mod 10)])"
  by pat_completeness auto
termination
  by (relation "measure id") auto

declare str_nat.simps [simp del]

section \<open>The chunk store: \<open>database/vector_store.py\<close>\<close>

subsection \<open>Data\<close>

text \<open>The metadata dictionary that \<open>store_document_chunks\<close> builds for one chunk.\<close>

record metadata =
  md_document_id :: string
  md_chunk_index :: nat
  md_source :: string
  md_timestamp :: string

text \<open>One record of the index: its id, its document text and its metadata.\<close>

record entry =
  entry_id :: string
  entry_document :: string
  entry_metadata :: metadata

text \<open>The only filter the sources build: \<open>{"document_id": {"$in": document_ids}}\<close>.\<close>

datatype where_clause = DocumentIdIn "string list"

text \<open>The calls the sources make on the module-level \<open>collection\<close>, with their keyword
  arguments in the order the sources write them.\<close>

datatype call =
    Add "string list" "string list" "metadata list"
  | Query "string list" int "where_clause option"
  | Get where_clause

text \<open>The module-level \<open>collection\<close>: the records it holds and the calls made on it so
  far (what a mock of it records).\<close>

record collection =
  entries :: "entry list"
  calls :: "call list"

text \<open>What \<open>collection.query\<close> and \<open>collection.get\<close> return: dictionaries whose fields the
  sources test for truthiness, so a field may be \<open>None\<close>.\<close>

record query_result =
  res_documents :: "string list list option"
  res_ids :: "string list list option"
  res_metadatas :: "metadata list list option"

record get_result =
  got_ids :: "string list"
  got_documents :: "string list option"

text \<open>The dictionaries the store's functions return.\<close>

record storage_result =
  status :: string
  chunks_stored :: nat
  error :: "string option"

record search_result =
  sr_chunks :: "string list"
  sr_ids :: "string list"
  sr_metadatas :: "metadata list"

subsection \<open>The environment\<close>

text \<open>A \<open>pathlib.Path\<close>: the location that \<open>open\<close> reads and its final component
  \<open>file_path.name\<close>.\<close>

record path =
  location :: string
  name :: string

text \<open>A page of an opened PDF: what \<open>page.extract_text()\<close> gives, a text or an exception.\<close>

type_synonym page = "exn + string"

text \<open>
  Everything outside the repository that the code calls, taken as parameters:
  the clock (\<open>datetime.utcnow().isoformat()\<close>), whether the index raises during
  \<open>add\<close> or \<open>get\<close>, what its similarity query answers on the records it holds, what
  opening a path with \<open>open\<close> and \<open>PyPDF2.PdfReader\<close> gives (an exception or the pages),
  whether \<open>print\<close> raises on the line it is given (a standard output that cannot encode
  or accept it), the text splitter (\<open>RecursiveCharacterTextSplitter\<close> built with a chunk size and an
  overlap and the fixed separators, then \<open>split_text\<close>), and the two constants of
  \<open>config.settings\<close>.
\<close>

record env =
  utcnow_isoformat :: string
  add_raises :: "exn option"
  get_raises :: "exn option"
  index_query :: "entry list \<Rightarrow> string list \<Rightarrow> int \<Rightarrow> where_clause option \<Rightarrow> exn + query_result"
  open_pdf :: "string \<Rightarrow> exn + page list"
  print_raises :: "string \<Rightarrow> exn option"
  splitter :: "int \<Rightarrow> int \<Rightarrow> string \<Rightarrow> exn + string list"
  CHUNK_SIZE :: int
  CHUNK_OVERLAP :: int

subsection \<open>The index provider\<close>

fun matches :: "where_clause \<Rightarrow> entry \<Rightarrow> bool" where
  "matches (DocumentIdIn ds) e = (md_document_id (entry_metadata e) \<in> set ds)"

fun make_entry :: "string \<times> string \<times> metadata \<Rightarrow> entry" where
  "make_entry (i, d, m) = \<lparr>entry_id = i, entry_document = d, entry_metadata = m\<rparr>"

text \<open>
  Modelled from the spec: the identity key of a chunk is unique within the store, and a
  colliding key overwrites silently. Writing one record removes the record that holds its
  id, if there is one, and adds the new one.
\<close>

definition upsert :: "entry list \<Rightarrow> entry \<Rightarrow> entry list" where
  "upsert rs r = filter (\<lambda>x. entry_id x \<noteq> entry_id r) rs @ [r]"

text \<open>
  Modelled from the spec: the batch insert of the embedding/index provider (the chromadb
  collection, which is not part of the sources). It takes \<open>{id, text, metadata}\<close>
  records in one batch and writes them one after the other, so that a key repeated in the
  batch, like a key already in the index, keeps its last record only; any failure of the
  provider is an exception, and the model writes nothing then. The call is recorded
  whether it fails or not.
\<close>

definition collection_add ::
  "env \<Rightarrow> collection \<Rightarrow> string list \<Rightarrow> string list \<Rightarrow> metadata list \<Rightarrow> (exn + unit) \<times> collection" where
  "collection_add e coll documents ids metadatas =
     (let called = coll\<lparr>calls := calls coll @ [Add documents ids metadatas]\<rparr>
      in case add_raises e of
           Some x \<Rightarrow> (Inl x, called)
         | None \<Rightarrow>
             (Inr (),
              called\<lparr>entries :=
                foldl upsert (entries coll)
                  (map make_entry (zip ids (zip documents metadatas)))\<rparr>))"

text \<open>
  Modelled from the spec: the bulk fetch of the embedding/index provider by a metadata
  predicate: every record whose metadata satisfies the filter, unranked, in the order
  the index holds them.
\<close>

definition collection_get :: "env \<Rightarrow> collection \<Rightarrow> where_clause \<Rightarrow> (exn + get_result) \<times> collection" where
  "collection_get e coll wh =
     (let called = coll\<lparr>calls := calls coll @ [Get wh]\<rparr>
      in case get_raises e of
           Some x \<Rightarrow> (Inl x, called)
         | None \<Rightarrow>
             (let found = filter (matches wh) (entries coll)
              in (Inr \<lparr>got_ids = map entry_id found,
                       got_documents = Some (map entry_document found)\<rparr>, called)))"

text \<open>
  Modelled from the spec: the similarity query of the embedding/index provider. The
  ranking is the provider's own, so the answer is the environment's \<open>index_query\<close> on the
  records held and the arguments passed; the call is recorded.
\<close>

definition collection_query ::
  "env \<Rightarrow> collection \<Rightarrow> string list \<Rightarrow> int \<Rightarrow> where_clause option \<Rightarrow> (exn + query_result) \<times> collection" where
  "collection_query e coll query_texts n_results wh =
     (index_query e (entries coll) query_texts n_results wh,
      coll\<lparr>calls := calls coll @ [Query query_texts n_results wh]\<rparr>)"

subsection \<open>\<open>store_document_chunks\<close>\<close>

text \<open>\<open>source or "unknown"\<close>: the default replaces \<open>None\<close> and every falsy string.\<close>

definition source_or_unknown :: "string option \<Rightarrow> string" where
  "source_or_unknown source =
     (case source of None \<Rightarrow> ''unknown'' | Some s \<Rightarrow> if s = [] then ''unknown'' else s)"

definition store_document_chunks ::
  "env \<Rightarrow> collection \<Rightarrow> string \<Rightarrow> string list \<Rightarrow> string option \<Rightarrow> storage_result \<times> collection" where
  "store_document_chunks e coll document_id chunks source =
     (if chunks = [] then (\<lparr>status = ''success'', chunks_stored = 0, error = None\<rparr>, coll)
      else
        let timestamp = utcnow_isoformat e @ ''Z'';
            ids = map (\<lambda>i. document_id @ ''_chunk_'' @ str_nat i) [0..<length chunks];
            metadatas = map (\<lambda>i. \<lparr>md_document_id = document_id, md_chunk_index = i,
                                    md_source = source_or_unknown source,
                                    md_timestamp = timestamp\<rparr>) [0..<length chunks]
        in case collection_add e coll chunks ids metadatas of
             (Inr u, coll') \<Rightarrow>
               (\<lparr>status = ''success'', chunks_stored = length chunks, error = None\<rparr>, coll')
           | (Inl x, coll') \<Rightarrow>
               (\<lparr>status = ''failed'', chunks_stored = 0, error = Some (str_exn x)\<rparr>, coll'))"

subsection \<open>\<open>search_documents\<close> and \<open>get_all_chunks_for_documents\<close>\<close>

text \<open>\<open>results[k][0] if results[k] else []\<close>: \<open>None\<close> and the empty list are falsy.\<close>

fun first_or_empty :: "'a list list option \<Rightarrow> 'a list" where
  "first_or_empty None = []"
| "first_or_empty (Some []) = []"
| "first_or_empty (Some (r # rs)) = r"

text \<open>\<open>if document_ids:\<close> is false for \<open>None\<close> and for the empty list.\<close>

fun where_filter_of :: "string list option \<Rightarrow> where_clause option" where
  "where_filter_of None = None"
| "where_filter_of (Some ds) = (if ds = [] then None else Some (DocumentIdIn ds))"

definition search_documents ::
  "env \<Rightarrow> collection \<Rightarrow> string \<Rightarrow> string list option \<Rightarrow> int \<Rightarrow> (exn + search_result) \<times> collection" where
  "search_documents e coll query document_ids n_results =
     (let where_filter = where_filter_of document_ids
      in case collection_query e coll [query] n_results where_filter of
           (Inl x, coll') \<Rightarrow> (Inl x, coll')
         | (Inr results, coll') \<Rightarrow>
             (Inr \<lparr>sr_chunks = first_or_empty (res_documents results),
                   sr_ids = first_or_empty (res_ids results),
                   sr_metadatas = first_or_empty (res_metadatas results)\<rparr>, coll'))"

definition get_all_chunks_for_documents ::
  "env \<Rightarrow> collection \<Rightarrow> string list \<Rightarrow> (exn + string list) \<times> collection" where
  "get_all_chunks_for_documents e coll document_ids =
     (if document_ids = [] then (Inr [], coll)
      else case collection_get e coll (DocumentIdIn document_ids) of
             (Inl x, coll') \<Rightarrow> (Inl x, coll')
           | (Inr results, coll') \<Rightarrow>
               (Inr (case got_documents results of None \<Rightarrow> [] | Some ds \<Rightarrow> ds), coll'))"

section \<open>The document processor: \<open>services/document_processor.py\<close>\<close>

text \<open>The loop of \<open>extract_text_from_pdf\<close>: \<open>text += page.extract_text() + "\n\n"\<close> for
  every page in order; an exception of a page leaves the loop.\<close>

fun read_pages :: "page list \<Rightarrow> string \<Rightarrow> exn + string" where
  "read_pages [] text = Inr text"
| "read_pages (Inl x # ps) text = Inl x"
| "read_pages (Inr t # ps) text = read_pages ps (text @ t @ [CHR 0x0A, CHR 0x0A])"

text \<open>The body of the \<open>try\<close> block: the value returned, or the exception raised in it.
  Of the two handlers, the one for \<open>FileNotFoundError\<close> returns the empty string; the one
  for every other exception prints a line first, and an exception that \<open>print\<close> raises
  there leaves the function.\<close>

definition try_extract :: "env \<Rightarrow> path \<Rightarrow> exn + string" where
  "try_extract e pdf_path =
     (case open_pdf e (location pdf_path) of
        Inl x \<Rightarrow> Inl x
      | Inr pages \<Rightarrow>
          (case read_pages pages [] of
             Inl x \<Rightarrow> Inl x
           | Inr text \<Rightarrow> if strip text = [] then Inr [] else Inr (strip text)))"

definition extract_text_from_pdf :: "env \<Rightarrow> path \<Rightarrow> exn + string" where
  "extract_text_from_pdf e pdf_path =
     (case try_extract e pdf_path of
        Inr text \<Rightarrow> Inr text
      | Inl (FileNotFoundError m) \<Rightarrow> Inr []
      | Inl x \<Rightarrow>
          (case print_raises e (''Error extracting PDF: '' @ str_exn x) of
             Some y \<Rightarrow> Inl y
           | None \<Rightarrow> Inr []))"

definition chunk_text :: "env \<Rightarrow> string \<Rightarrow> int \<Rightarrow> int \<Rightarrow> exn + string list" where
  "chunk_text e text chunk_size chunk_overlap =
     (if text = [] \<or> strip text = [] then Inr []
      else splitter e chunk_size chunk_overlap text)"

record ingest_result =
  chunks_count :: nat
  ingest_status :: string

definition process_document ::
  "env \<Rightarrow> collection \<Rightarrow> string \<Rightarrow> path \<Rightarrow> (exn + ingest_result) \<times> collection" where
  "process_document e coll document_id file_path =
     (case extract_text_from_pdf e file_path of
        Inl x \<Rightarrow> (Inl x, coll)
      | Inr text \<Rightarrow>
         if text = [] \<or> length text < 100
         then (Inl (ValueError ''Document too short or empty''), coll)
         else
           case chunk_text e text (CHUNK_SIZE e) (CHUNK_OVERLAP e) of
             Inl x \<Rightarrow> (Inl x, coll)
           | Inr chunks \<Rightarrow>
               (case store_document_chunks e coll document_id chunks (Some (name file_path)) of
                  (storage_result, coll') \<Rightarrow>
                    if status storage_result = ''failed''
                    then (Inl (ValueError (''Failed to store document chunks: ''
                                 @ (case error storage_result of
                                      Some m \<Rightarrow> m | None \<Rightarrow> ''Unknown error''))), coll')
                    else (Inr \<lparr>chunks_count = chunks_stored storage_result,
                               ingest_status = status storage_result\<rparr>, coll')))"

section \<open>Reference definitions and example inputs\<close>

text \<open>The condition that the orchestrator raises at its length check.\<close>

abbreviation DocumentTooShort :: exn where
  "DocumentTooShort \<equiv> ValueError ''Document too short or empty''"

text \<open>The number that a string of decimal digits writes.\<close>

definition decimal_value :: "string \<Rightarrow> nat" where
  "decimal_value s = foldl (\<lambda>a c. 10 * a + (of_char c - 48)) 0 s"

text \<open>Following the spec's words for the extractor: the extracted text of every page, in
  page order, separated by a blank line between pages.\<close>

fun pages_joined :: "string list \<Rightarrow> string" where
  "pages_joined [] = []"
| "pages_joined [t] = t"
| "pages_joined (t # u # ts) = t @ [CHR 0x0A, CHR 0x0A] @ pages_joined (u # ts)"

text \<open>
  An environment to run the functions in: a fixed clock, an index that never raises and
  answers a query with the records that pass the filter, in the order held, cut to
  \<open>n_results\<close>; no file exists; \<open>print\<close> never raises; the splitter returns its text as
  one chunk.
\<close>

definition example_env :: env where
  "example_env =
     \<lparr>utcnow_isoformat = ''2024-05-01T12:00:00'',
      add_raises = None,
      get_raises = None,
      index_query = (\<lambda>rs qs n wh.
         let found = take (nat n) (case wh of None \<Rightarrow> rs | Some w \<Rightarrow> filter (matches w) rs)
         in Inr \<lparr>res_documents = Some (map (\<lambda>q. map entry_document found) qs),
                 res_ids = Some (map (\<lambda>q. map entry_id found) qs),
                 res_metadatas = Some (map (\<lambda>q. map entry_metadata found) qs)\<rparr>),
      open_pdf = (\<lambda>p. Inl (FileNotFoundError p)),
      print_raises = (\<lambda>m. None),
      splitter = (\<lambda>sz ov t. Inr [t]),
      CHUNK_SIZE = 1000,
      CHUNK_OVERLAP = 200\<rparr>"

text \<open>The same environment where every path opens as a PDF with the given pages.\<close>

definition pdf_env :: "page list \<Rightarrow> env" where
  "pdf_env pages = example_env\<lparr>open_pdf := (\<lambda>p. Inr pages)\<rparr>"

definition empty_collection :: collection where
  "empty_collection = \<lparr>entries = [], calls = []\<rparr>"

definition example_path :: path where
  "example_path = \<lparr>location = ''uploads/notes.pdf'', name = ''notes.pdf''\<rparr>"

text \<open>A text of 134 characters.\<close>

definition example_text :: string where
  "example_text = ''Machine learning is a subset of artificial intelligence that enables computers to learn from data without being explicitly programmed.''"

section \<open>Strings\<close>

lemma strip_blank: "(\<forall>c\<in>set s. isspace c) \<Longrightarrow> strip s = []"
proof -
  assume "\<forall>c\<in>set s. isspace c"
  then have d: "dropWhile isspace s = []" by simp
  show ?thesis unfolding strip_def d by simp
qed

lemma strip_append_blank:
  assumes "\<forall>c\<in>set w. isspace c"
  shows "strip (s @ w) = strip s"
proof (cases "\<forall>c\<in>set s. isspace c")
  case True
  with assms have "\<forall>c\<in>set (s @ w). isspace c" by auto
  then have "strip (s @ w) = []" by (rule strip_blank)
  with True show ?thesis by (simp add: strip_blank)
next
  case False
  then have "dropWhile isspace (s @ w) = dropWhile isspace s @ w"
    by (auto simp add: dropWhile_append)
  moreover have "dropWhile isspace (rev w @ t) = dropWhile isspace t" for t
    using assms by (simp add: dropWhile_append)
  ultimately show ?thesis by (simp add: strip_def)
qed

lemma isspace_newline: "isspace (CHR 0x0A)"
  by (simp add: isspace_def)

lemma digit_char_value: "d < 10 \<Longrightarrow> of_char (digit_char d) = 48 + d"
  by (simp add: digit_char_def)

lemma decimal_value_snoc:
  "decimal_value (s @ [c]) = 10 * decimal_value s + (of_char c - 48)"
  by (simp add: decimal_value_def)

text \<open>\<open>str_nat\<close> writes its argument in decimal, so distinct positions get distinct ids.\<close>

lemma decimal_value_str_nat: "decimal_value (str_nat n) = n"
proof (induction n rule: str_nat.induct)
  case (1 n)
  show ?case
  proof (cases "n < 10")
    case True
    then show ?thesis
      by (subst str_nat.simps) (simp add: decimal_value_def digit_char_value)
  next
    case False
    with "1" have "decimal_value (str_nat (n div 10)) = n div 10" by simp
    with False show ?thesis
      by (subst str_nat.simps) (simp add: decimal_value_snoc digit_char_value)
  qed
qed

lemma str_nat_inj: "str_nat m = str_nat n \<Longrightarrow> m = n"
  by (metis decimal_value_str_nat)

lemma chunk_ids_distinct:
  "distinct (map (\<lambda>i. document_id @ ''_chunk_'' @ str_nat i) [0..<n])"
  by (auto simp add: distinct_map inj_on_def dest: str_nat_inj)

section \<open>The index keeps one record per key\<close>

lemma upsert_distinct:
  "distinct (map entry_id rs) \<Longrightarrow> distinct (map entry_id (upsert rs r))"
  by (auto simp add: upsert_def distinct_map_filter)

lemma foldl_upsert_distinct:
  "distinct (map entry_id rs) \<Longrightarrow> distinct (map entry_id (foldl upsert rs new))"
  by (induction new arbitrary: rs) (simp_all add: upsert_distinct)

text \<open>Whatever the batch, an index with one record per key has one record per key after
  the insert.\<close>

lemma collection_add_distinct:
  "distinct (map entry_id (entries coll)) \<Longrightarrow>
   distinct (map entry_id (entries (snd (collection_add e coll documents ids metadatas))))"
  by (simp add: collection_add_def Let_def foldl_upsert_distinct split: option.splits)

text \<open>A batch whose keys differ from one another replaces the records that hold one of its
  keys and is held whole.\<close>

lemma foldl_upsert_batch:
  "distinct (map entry_id new) \<Longrightarrow>
   foldl upsert rs new = filter (\<lambda>r. entry_id r \<notin> entry_id ` set new) rs @ new"
proof (induction new arbitrary: rs)
  case Nil
  then show ?case by simp
next
  case (Cons n new)
  then have d: "distinct (map entry_id new)" and f: "entry_id n \<notin> entry_id ` set new"
    by simp_all
  have "foldl upsert rs (n # new) = foldl upsert (upsert rs n) new" by simp
  also have "\<dots> = filter (\<lambda>r. entry_id r \<notin> entry_id ` set new) (upsert rs n) @ new"
    using d by (rule Cons.IH)
  also have "filter (\<lambda>r. entry_id r \<notin> entry_id ` set new) (upsert rs n)
               = filter (\<lambda>r. entry_id r \<notin> entry_id ` set (n # new)) rs @ [n]"
    using f by (auto simp add: upsert_def intro: filter_cong)
  finally show ?case by simp
qed

text \<open>A key given twice in one batch keeps its last record.\<close>

lemma collection_add_repeated_key:
  "map entry_document
     (entries (snd (collection_add example_env empty_collection [''first'', ''second'']
                      [''key'', ''key''] [m, m])))
     = [''second'']"
  by (simp add: collection_add_def upsert_def example_env_def empty_collection_def)

lemma entry_ids_zip:
  "length ids = length docs \<Longrightarrow> length metas = length docs \<Longrightarrow>
   map entry_id (map make_entry (zip ids (zip docs metas))) = ids"
  by (rule nth_equalityI) simp_all

section \<open>The insert path\<close>

lemma store_document_chunks_add:
  "chunks \<noteq> [] \<Longrightarrow>
   store_document_chunks e coll document_id chunks source =
     (case collection_add e coll chunks
             (map (\<lambda>i. document_id @ ''_chunk_'' @ str_nat i) [0..<length chunks])
             (map (\<lambda>i. \<lparr>md_document_id = document_id, md_chunk_index = i,
                          md_source = source_or_unknown source,
                          md_timestamp = utcnow_isoformat e @ ''Z''\<rparr>) [0..<length chunks]) of
        (Inr u, coll') \<Rightarrow>
          (\<lparr>status = ''success'', chunks_stored = length chunks, error = None\<rparr>, coll')
      | (Inl x, coll') \<Rightarrow>
          (\<lparr>status = ''failed'', chunks_stored = 0, error = Some (str_exn x)\<rparr>, coll'))"
  by (simp add: store_document_chunks_def Let_def)

lemma store_document_chunks_raises:
  "chunks \<noteq> [] \<Longrightarrow> add_raises e = Some x \<Longrightarrow>
   fst (store_document_chunks e coll document_id chunks source) =
     \<lparr>status = ''failed'', chunks_stored = 0, error = Some (str_exn x)\<rparr>"
  by (simp add: store_document_chunks_add collection_add_def Let_def)

lemma store_document_chunks_calls:
  "chunks \<noteq> [] \<Longrightarrow>
   calls (snd (store_document_chunks e coll document_id chunks source)) =
     calls coll @ [Add chunks
       (map (\<lambda>i. document_id @ ''_chunk_'' @ str_nat i) [0..<length chunks])
       (map (\<lambda>i. \<lparr>md_document_id = document_id, md_chunk_index = i,
                    md_source = source_or_unknown source,
                    md_timestamp = utcnow_isoformat e @ ''Z''\<rparr>) [0..<length chunks])]"
  by (simp add: store_document_chunks_add collection_add_def Let_def split: option.splits)

lemma store_document_chunks_entries:
  "chunks \<noteq> [] \<Longrightarrow> add_raises e = None \<Longrightarrow>
   entries (snd (store_document_chunks e coll document_id chunks source)) =
     filter (\<lambda>r. entry_id r \<notin> set (map (\<lambda>i. document_id @ ''_chunk_'' @ str_nat i)
                                        [0..<length chunks])) (entries coll)
     @ map make_entry
         (zip (map (\<lambda>i. document_id @ ''_chunk_'' @ str_nat i) [0..<length chunks])
           (zip chunks
             (map (\<lambda>i. \<lparr>md_document_id = document_id, md_chunk_index = i,
                          md_source = source_or_unknown source,
                          md_timestamp = utcnow_isoformat e @ ''Z''\<rparr>) [0..<length chunks])))"
proof -
  assume ne: "chunks \<noteq> []" and ok: "add_raises e = None"
  let ?ids = "map (\<lambda>i. document_id @ ''_chunk_'' @ str_nat i) [0..<length chunks]"
  let ?metas = "map (\<lambda>i. \<lparr>md_document_id = document_id, md_chunk_index = i,
                    md_source = source_or_unknown source,
                    md_timestamp = utcnow_isoformat e @ ''Z''\<rparr>) [0..<length chunks]"
  let ?new = "map make_entry (zip ?ids (zip chunks ?metas))"
  have keys: "map entry_id ?new = ?ids"
    by (rule entry_ids_zip) simp_all
  have "distinct (map entry_id ?new)"
    unfolding keys by (rule chunk_ids_distinct)
  then have "foldl upsert (entries coll) ?new
               = filter (\<lambda>r. entry_id r \<notin> entry_id ` set ?new) (entries coll) @ ?new"
    by (rule foldl_upsert_batch)
  moreover have "entry_id ` set ?new = set ?ids"
    using keys by (metis set_map)
  moreover have "entries (snd (store_document_chunks e coll document_id chunks source))
                   = foldl upsert (entries coll) ?new"
    using ne ok by (simp add: store_document_chunks_add collection_add_def Let_def)
  ultimately show ?thesis by simp
qed

lemma store_document_chunks_entries_raises:
  "add_raises e = Some x \<Longrightarrow>
   entries (snd (store_document_chunks e coll document_id chunks source)) = entries coll"
  by (cases "chunks = []")
     (simp_all add: store_document_chunks_def collection_add_def Let_def)

lemma entry_documents_zip:
  "length ids = length docs \<Longrightarrow> length metas = length docs \<Longrightarrow>
   map entry_document (map make_entry (zip ids (zip docs metas))) = docs"
  by (rule nth_equalityI) simp_all

lemma entries_zip_match:
  assumes "length ids = length docs" "length metas = length docs"
      and "\<forall>m\<in>set metas. md_document_id m \<in> set ds"
  shows "filter (matches (DocumentIdIn ds)) (map make_entry (zip ids (zip docs metas)))
           = map make_entry (zip ids (zip docs metas))"
proof -
  have "md_document_id (entry_metadata r) \<in> set ds"
    if "r \<in> set (map make_entry (zip ids (zip docs metas)))" for r
  proof -
    from that obtain i d m
      where r: "r = make_entry (i, d, m)" and "(i, d, m) \<in> set (zip ids (zip docs metas))"
      by auto
    then have "m \<in> set metas" by (auto dest!: set_zip_rightD)
    with r assms(3) show ?thesis by simp
  qed
  then show ?thesis by (simp add: filter_id_conv del: set_map)
qed

lemma chunk_text_cases:
  "chunk_text e text cs co = Inr [] \<or> chunk_text e text cs co = splitter e cs co text"
  by (simp add: chunk_text_def)

section \<open>The extractor\<close>

lemma read_pages_texts:
  "read_pages (map Inr texts) acc
     = Inr (acc @ concat (map (\<lambda>t. t @ [CHR 0x0A, CHR 0x0A]) texts))"
  by (induction texts arbitrary: acc) simp_all

lemma read_pages_raises:
  "\<exists>p\<in>set pages. isl p \<Longrightarrow> \<exists>x. read_pages pages acc = Inl x"
proof (induction pages arbitrary: acc)
  case Nil
  then show ?case by simp
next
  case (Cons p ps)
  then show ?case by (cases p) auto
qed

lemma concat_pages_joined:
  "texts \<noteq> [] \<Longrightarrow>
   concat (map (\<lambda>t. t @ [CHR 0x0A, CHR 0x0A]) texts) = pages_joined texts @ [CHR 0x0A, CHR 0x0A]"
  by (induction texts rule: pages_joined.induct) simp_all

lemma strip_concat_pages:
  "strip (concat (map (\<lambda>t. t @ [CHR 0x0A, CHR 0x0A]) texts)) = strip (pages_joined texts)"
proof (cases "texts = []")
  case True
  then show ?thesis by simp
next
  case False
  then show ?thesis
    by (simp add: concat_pages_joined strip_append_blank isspace_newline)
qed

lemma pages_joined_blank:
  "\<forall>t\<in>set texts. \<forall>c\<in>set t. isspace c \<Longrightarrow> \<forall>c\<in>set (pages_joined texts). isspace c"
  by (induction texts rule: pages_joined.induct) (auto simp add: isspace_newline)

lemma extract_text_from_pdf_texts:
  "open_pdf e (location pdf_path) = Inr (map Inr texts) \<Longrightarrow>
   extract_text_from_pdf e pdf_path = Inr (strip (pages_joined texts))"
  by (simp add: extract_text_from_pdf_def try_extract_def read_pages_texts strip_concat_pages)

section \<open>Claims about the chunk store's insert path\<close>

text \<open>
  Claim C1, as amended. For every non-empty chunk list, if the underlying index raises an
  exception during the insert, \<open>store_document_chunks\<close> returns, without raising, a result
  with status \<open>failed\<close>, \<open>chunks_stored\<close> equal to 0 and an \<open>error\<close> string equal to the
  exception's text \<open>str(e)\<close> (non-empty exactly when that text is); and \<open>process_document\<close>,
  having extracted at least 100 characters and chunked them into that list, raises a
  \<open>ValueError\<close> whose message is \<open>Failed to store document chunks: \<close> followed by that
  text, rather than returning.
\<close>

theorem store_failure_is_reported:
  assumes "chunks \<noteq> []" and "add_raises e = Some x"
  shows "fst (store_document_chunks e coll document_id chunks source)
           = \<lparr>status = ''failed'', chunks_stored = 0, error = Some (str_exn x)\<rparr>
       \<and> (extract_text_from_pdf e file_path = Inr text \<and> 100 \<le> length text
            \<and> chunk_text e text (CHUNK_SIZE e) (CHUNK_OVERLAP e) = Inr chunks
          \<longrightarrow> fst (process_document e coll document_id file_path)
                = Inl (ValueError (''Failed to store document chunks: '' @ str_exn x)))"
proof -
  have r: "fst (store_document_chunks e coll d chunks s)
             = \<lparr>status = ''failed'', chunks_stored = 0, error = Some (str_exn x)\<rparr>" for d s
    using assms by (rule store_document_chunks_raises)
  have "fst (process_document e coll document_id file_path)
          = Inl (ValueError (''Failed to store document chunks: '' @ str_exn x))"
    if "extract_text_from_pdf e file_path = Inr text" and "100 \<le> length text"
      and "chunk_text e text (CHUNK_SIZE e) (CHUNK_OVERLAP e) = Inr chunks"
  proof -
    from that(2) have ne: "text \<noteq> []" by auto
    obtain res coll'
      where s: "store_document_chunks e coll document_id chunks (Some (name file_path))
                  = (res, coll')"
      by (cases "store_document_chunks e coll document_id chunks (Some (name file_path))")
    with r [of document_id "Some (name file_path)"]
    have "res = \<lparr>status = ''failed'', chunks_stored = 0, error = Some (str_exn x)\<rparr>" by simp
    with that ne s show ?thesis
      by (simp add: process_document_def)
  qed
  with r show ?thesis by blast
qed

text \<open>The index refuses the connection while a document of 134 characters is ingested.\<close>

theorem store_failure_is_reported_witness:
  "fst (store_document_chunks
          ((pdf_env [Inr example_text])\<lparr>add_raises := Some (Exception ''Connection refused'')\<rparr>)
          empty_collection ''test_error'' [example_text] (Some ''error_test.pdf''))
     = \<lparr>status = ''failed'', chunks_stored = 0, error = Some ''Connection refused''\<rparr>
   \<and> fst (process_document
          ((pdf_env [Inr example_text])\<lparr>add_raises := Some (Exception ''Connection refused'')\<rparr>)
          empty_collection ''test_error'' example_path)
     = Inl (ValueError ''Failed to store document chunks: Connection refused'')"
proof -
  let ?e = "(pdf_env [Inr example_text])\<lparr>add_raises := Some (Exception ''Connection refused'')\<rparr>"
  have t: "extract_text_from_pdf ?e example_path = Inr example_text"
    by code_simp
  have l: "100 \<le> length example_text"
    by code_simp
  have c: "chunk_text ?e example_text (CHUNK_SIZE ?e) (CHUNK_OVERLAP ?e) = Inr [example_text]"
    by code_simp
  have a: "add_raises ?e = Some (Exception ''Connection refused'')" by simp
  from store_failure_is_reported
         [where chunks = "[example_text]" and file_path = example_path
            and ?text = example_text, OF _ a] t l c
  show ?thesis by simp
qed

text \<open>
  Claim C1 as stated fails: the \<open>error\<close> string is the exception's text, which is empty
  for an exception raised without a message.
\<close>

theorem store_failure_error_may_be_empty:
  "\<not> (\<exists>m. error (fst (store_document_chunks (example_env\<lparr>add_raises := Some (Exception [])\<rparr>)
                        empty_collection ''test_error'' [''Test chunk''] None)) = Some m
           \<and> m \<noteq> [])"
  by (simp add: store_document_chunks_def collection_add_def example_env_def Let_def)

text \<open>
  Claim C3. For every non-empty chunk sequence and document id, starting from a store that
  holds no chunk of that document, and with an index that raises neither on the insert nor
  on the fetch, \<open>store_document_chunks\<close> followed by \<open>get_all_chunks_for_documents\<close> on that
  one id returns exactly as many entries as there are chunks, and their texts, as a set,
  are the set of the chunks.
\<close>

theorem store_then_get_all:
  assumes "chunks \<noteq> []" and "add_raises e = None" and "get_raises e = None"
      and "\<forall>r\<in>set (entries coll). md_document_id (entry_metadata r) \<noteq> document_id"
  shows "\<exists>got. fst (get_all_chunks_for_documents e
                      (snd (store_document_chunks e coll document_id chunks source))
                      [document_id]) = Inr got
              \<and> length got = length chunks \<and> set got = set chunks"
proof -
  let ?ids = "map (\<lambda>i. document_id @ ''_chunk_'' @ str_nat i) [0..<length chunks]"
  let ?metas = "map (\<lambda>i. \<lparr>md_document_id = document_id, md_chunk_index = i,
                    md_source = source_or_unknown source,
                    md_timestamp = utcnow_isoformat e @ ''Z''\<rparr>) [0..<length chunks]"
  let ?new = "map make_entry (zip ?ids (zip chunks ?metas))"
  let ?coll' = "snd (store_document_chunks e coll document_id chunks source)"
  have ent: "entries ?coll' = filter (\<lambda>r. entry_id r \<notin> set ?ids) (entries coll) @ ?new"
    using assms(1,2) by (rule store_document_chunks_entries)
  have old: "filter (matches (DocumentIdIn [document_id]))
               (filter (\<lambda>r. entry_id r \<notin> set ?ids) (entries coll)) = []"
    using assms(4) by (auto simp add: filter_empty_conv)
  have new: "filter (matches (DocumentIdIn [document_id])) ?new = ?new"
    by (rule entries_zip_match) auto
  have docs: "map entry_document ?new = chunks"
    by (rule entry_documents_zip) simp_all
  have "fst (get_all_chunks_for_documents e ?coll' [document_id]) = Inr chunks"
    using assms(3) old new docs
    by (simp add: get_all_chunks_for_documents_def collection_get_def Let_def ent del: map_map)
  then show ?thesis by simp
qed

text \<open>Two chunks, one of them twice, stored for a new document into a store that holds
  a chunk of another document.\<close>

theorem store_then_get_all_witness:
  "fst (get_all_chunks_for_documents example_env
          (snd (store_document_chunks example_env
                  (snd (store_document_chunks example_env empty_collection ''other'' [''omega''] None))
                  ''doc'' [''alpha'', ''beta'', ''alpha''] (Some ''a.pdf'')))
          [''doc''])
     = Inr [''alpha'', ''beta'', ''alpha'']"
proof -
  let ?coll = "snd (store_document_chunks example_env empty_collection ''other'' [''omega''] None)"
  have a: "add_raises example_env = None" and g: "get_raises example_env = None"
    by (simp_all add: example_env_def)
  have f: "\<forall>r\<in>set (entries ?coll). md_document_id (entry_metadata r) \<noteq> ''doc''"
    by code_simp
  have n: "[''alpha'', ''beta'', ''alpha''] \<noteq> []" by simp
  from store_then_get_all [OF n a g f, of "Some ''a.pdf''"]
  obtain got where "fst (get_all_chunks_for_documents example_env
          (snd (store_document_chunks example_env ?coll
                  ''doc'' [''alpha'', ''beta'', ''alpha''] (Some ''a.pdf'')))
          [''doc'']) = Inr got" by blast
  moreover have "fst (get_all_chunks_for_documents example_env
          (snd (store_document_chunks example_env ?coll
                  ''doc'' [''alpha'', ''beta'', ''alpha''] (Some ''a.pdf'')))
          [''doc'']) = Inr [''alpha'', ''beta'', ''alpha'']"
    by code_simp
  ultimately show ?thesis by simp
qed

text \<open>
  Claim C6. For every document id and source name, \<open>store_document_chunks\<close> called with an
  empty chunk sequence returns status \<open>success\<close> with \<open>chunks_stored\<close> equal to 0 and no
  \<open>error\<close> field, and makes no call to the underlying index: the collection, the record of
  calls included, is as it was.
\<close>

theorem store_document_chunks_empty:
  "store_document_chunks e coll document_id [] source
     = (\<lparr>status = ''success'', chunks_stored = 0, error = None\<rparr>, coll)"
  by (simp add: store_document_chunks_def)

theorem store_document_chunks_empty_witness:
  "store_document_chunks example_env empty_collection ''test_empty'' [] (Some ''empty.pdf'')
     = (\<lparr>status = ''success'', chunks_stored = 0, error = None\<rparr>,
        \<lparr>entries = [], calls = []\<rparr>)"
  using store_document_chunks_empty [of example_env empty_collection "''test_empty''" "Some ''empty.pdf''"]
  by (simp add: empty_collection_def)

text \<open>
  Claim C5. For every non-empty chunk list, \<open>store_document_chunks\<close> assigns the chunk at
  position \<open>i\<close> the id \<open>{document_id}_chunk_{i}\<close> and metadata containing the document id,
  \<open>chunk_index\<close> equal to \<open>i\<close>, \<open>source\<close> equal to the given source name or \<open>unknown\<close> when it
  is absent (which is \<open>source or "unknown"\<close>: \<open>None\<close>, and a name that is no name, the empty
  string), and a UTC ISO-8601 timestamp ending in \<open>Z\<close> (the reading of the UTC clock in
  ISO format, followed by \<open>Z\<close>), and writes all chunks as one batch call to the underlying
  index.
\<close>

theorem store_document_chunks_batch:
  assumes "chunks \<noteq> []"
  shows "\<exists>ids metadatas.
           calls (snd (store_document_chunks e coll document_id chunks source))
             = calls coll @ [Add chunks ids metadatas]
         \<and> length ids = length chunks \<and> length metadatas = length chunks
         \<and> (\<forall>i<length chunks.
               ids ! i = document_id @ ''_chunk_'' @ str_nat i
             \<and> md_document_id (metadatas ! i) = document_id
             \<and> md_chunk_index (metadatas ! i) = i
             \<and> md_source (metadatas ! i)
                 = (case source of None \<Rightarrow> ''unknown''
                    | Some s \<Rightarrow> if s = [] then ''unknown'' else s)
             \<and> md_timestamp (metadatas ! i) = utcnow_isoformat e @ ''Z''
             \<and> last (md_timestamp (metadatas ! i)) = CHR ''Z'')"
proof -
  let ?ids = "map (\<lambda>i. document_id @ ''_chunk_'' @ str_nat i) [0..<length chunks]"
  let ?metas = "map (\<lambda>i. \<lparr>md_document_id = document_id, md_chunk_index = i,
                    md_source = source_or_unknown source,
                    md_timestamp = utcnow_isoformat e @ ''Z''\<rparr>) [0..<length chunks]"
  have "calls (snd (store_document_chunks e coll document_id chunks source))
          = calls coll @ [Add chunks ?ids ?metas]"
    using assms by (rule store_document_chunks_calls)
  moreover have "length ?ids = length chunks" and "length ?metas = length chunks"
    by simp_all
  moreover have "\<forall>i<length chunks.
               ?ids ! i = document_id @ ''_chunk_'' @ str_nat i
             \<and> md_document_id (?metas ! i) = document_id
             \<and> md_chunk_index (?metas ! i) = i
             \<and> md_source (?metas ! i)
                 = (case source of None \<Rightarrow> ''unknown''
                    | Some s \<Rightarrow> if s = [] then ''unknown'' else s)
             \<and> md_timestamp (?metas ! i) = utcnow_isoformat e @ ''Z''
             \<and> last (md_timestamp (?metas ! i)) = CHR ''Z''"
    by (simp add: source_or_unknown_def)
  ultimately show ?thesis by blast
qed

theorem store_document_chunks_batch_witness:
  "calls (snd (store_document_chunks example_env empty_collection ''doc''
                 [''alpha'', ''beta''] (Some ''a.pdf'')))
     = [Add [''alpha'', ''beta'']
            [''doc_chunk_0'', ''doc_chunk_1'']
            [\<lparr>md_document_id = ''doc'', md_chunk_index = 0, md_source = ''a.pdf'',
              md_timestamp = ''2024-05-01T12:00:00Z''\<rparr>,
             \<lparr>md_document_id = ''doc'', md_chunk_index = 1, md_source = ''a.pdf'',
              md_timestamp = ''2024-05-01T12:00:00Z''\<rparr>]]"
proof -
  have n: "[''alpha'', ''beta''] \<noteq> []" by simp
  from store_document_chunks_batch [OF n, of example_env empty_collection "''doc''" "Some ''a.pdf''"]
  obtain ids metadatas
    where "calls (snd (store_document_chunks example_env empty_collection ''doc''
                         [''alpha'', ''beta''] (Some ''a.pdf'')))
             = calls empty_collection @ [Add [''alpha'', ''beta''] ids metadatas]"
    by blast
  moreover have "calls (snd (store_document_chunks example_env empty_collection ''doc''
                 [''alpha'', ''beta''] (Some ''a.pdf'')))
     = [Add [''alpha'', ''beta'']
            [''doc_chunk_0'', ''doc_chunk_1'']
            [\<lparr>md_document_id = ''doc'', md_chunk_index = 0, md_source = ''a.pdf'',
              md_timestamp = ''2024-05-01T12:00:00Z''\<rparr>,
             \<lparr>md_document_id = ''doc'', md_chunk_index = 1, md_source = ''a.pdf'',
              md_timestamp = ''2024-05-01T12:00:00Z''\<rparr>]]"
    by code_simp
  ultimately show ?thesis by simp
qed

text \<open>
  Claim C4, as amended. \<open>store_document_chunks\<close> does not filter its input: every string of
  a non-empty \<open>chunks\<close> argument, an empty string included, is handed to the index in the
  one \<open>add\<close> call and, when the index does not raise, is then held by the store. The store
  holds no chunk with an empty text after the call whenever it held none before and no
  string of \<open>chunks\<close> is empty.
\<close>

theorem store_document_chunks_keeps_texts:
  "(chunks \<noteq> [] \<longrightarrow>
      (\<exists>ids metadatas. calls (snd (store_document_chunks e coll document_id chunks source))
                          = calls coll @ [Add chunks ids metadatas]))
 \<and> (chunks \<noteq> [] \<and> add_raises e = None \<longrightarrow>
      set chunks \<subseteq> entry_document ` set (entries (snd (store_document_chunks e coll document_id chunks source))))
 \<and> ((\<forall>r\<in>set (entries coll). entry_document r \<noteq> []) \<and> [] \<notin> set chunks \<longrightarrow>
      (\<forall>r\<in>set (entries (snd (store_document_chunks e coll document_id chunks source))).
         entry_document r \<noteq> []))"
proof -
  let ?ids = "map (\<lambda>i. document_id @ ''_chunk_'' @ str_nat i) [0..<length chunks]"
  let ?metas = "map (\<lambda>i. \<lparr>md_document_id = document_id, md_chunk_index = i,
                    md_source = source_or_unknown source,
                    md_timestamp = utcnow_isoformat e @ ''Z''\<rparr>) [0..<length chunks]"
  let ?new = "map make_entry (zip ?ids (zip chunks ?metas))"
  let ?coll' = "snd (store_document_chunks e coll document_id chunks source)"
  have docs: "map entry_document ?new = chunks"
    by (rule entry_documents_zip) simp_all
  have ent: "entries ?coll' = filter (\<lambda>r. entry_id r \<notin> set ?ids) (entries coll) @ ?new"
    if "chunks \<noteq> []" "add_raises e = None"
    using that by (rule store_document_chunks_entries)
  have a: "\<exists>ids metadatas. calls ?coll' = calls coll @ [Add chunks ids metadatas]"
    if "chunks \<noteq> []"
    using store_document_chunks_calls [OF that] by blast
  have b: "set chunks \<subseteq> entry_document ` set (entries ?coll')"
    if "chunks \<noteq> []" "add_raises e = None"
  proof -
    have "set chunks = entry_document ` set ?new"
      using docs by (metis set_map)
    then show ?thesis unfolding ent [OF that] by auto
  qed
  have c: "\<forall>r\<in>set (entries ?coll'). entry_document r \<noteq> []"
    if old: "\<forall>r\<in>set (entries coll). entry_document r \<noteq> []" and new: "[] \<notin> set chunks"
  proof (cases "chunks = []")
    case True
    with old show ?thesis by (simp add: store_document_chunks_def)
  next
    case False
    show ?thesis
    proof (cases "add_raises e")
      case None
      have "entry_document ` set ?new = set chunks"
        using docs by (metis set_map)
      with new have "\<forall>r\<in>set ?new. entry_document r \<noteq> []"
        by (metis image_eqI)
      with old show ?thesis unfolding ent [OF False None] by auto
    next
      case (Some x)
      with old show ?thesis by (simp add: store_document_chunks_entries_raises)
    qed
  qed
  from a b c show ?thesis by blast
qed

theorem store_document_chunks_keeps_texts_witness:
  "map entry_document
     (entries (snd (store_document_chunks example_env empty_collection ''doc''
                      [''alpha'', ''beta''] None)))
     = [''alpha'', ''beta'']"
proof -
  let ?coll' = "snd (store_document_chunks example_env empty_collection ''doc'' [''alpha'', ''beta''] None)"
  have n: "[''alpha'', ''beta''] \<noteq> []" and a: "add_raises example_env = None"
    and o: "\<forall>r\<in>set (entries empty_collection). entry_document r \<noteq> []"
    and c: "[] \<notin> set [''alpha'', ''beta'']"
    by (simp_all add: example_env_def empty_collection_def)
  from store_document_chunks_keeps_texts [of "[''alpha'', ''beta'']" example_env empty_collection "''doc''" None]
    n a o c
  have "set [''alpha'', ''beta''] \<subseteq> entry_document ` set (entries ?coll')"
    and "\<forall>r\<in>set (entries ?coll'). entry_document r \<noteq> []"
    by blast+
  moreover have "map entry_document (entries ?coll') = [''alpha'', ''beta'']"
    by code_simp
  ultimately show ?thesis by simp
qed

text \<open>
  Claim C4 as stated fails: an empty string in the \<open>chunks\<close> argument is neither rejected
  nor skipped; it is passed to the index and, the index accepting it, the store holds a
  chunk whose text is empty.
\<close>

theorem store_document_chunks_stores_empty_text:
  "\<not> (\<forall>r\<in>set (entries (snd (store_document_chunks example_env empty_collection ''doc''
                               [''alpha'', []] None))).
         entry_document r \<noteq> [])
   \<and> calls (snd (store_document_chunks example_env empty_collection ''doc'' [''alpha'', []] None))
       = [Add [''alpha'', []]
              [''doc_chunk_0'', ''doc_chunk_1'']
              [\<lparr>md_document_id = ''doc'', md_chunk_index = 0, md_source = ''unknown'',
                md_timestamp = ''2024-05-01T12:00:00Z''\<rparr>,
               \<lparr>md_document_id = ''doc'', md_chunk_index = 1, md_source = ''unknown'',
                md_timestamp = ''2024-05-01T12:00:00Z''\<rparr>]]"
  by code_simp

section \<open>Claims about the retrieval functions\<close>

text \<open>
  Claim C7, as amended. The retrieval functions validate nothing. \<open>search_documents\<close>
  forwards every query text and every \<open>n_results\<close>, an empty text and a non-positive number
  included, to the index in one \<open>query\<close> call, with a document filter only when
  \<open>document_ids\<close> is a non-empty list, and returns the first row of each field of the
  answer (an empty list where the field is missing or empty), or raises what the index
  raises. \<open>get_all_chunks_for_documents\<close> returns an empty list without calling the index
  when given no ids, and otherwise makes one \<open>get\<close> call filtered on the ids.
\<close>

theorem retrieval_functions_forward:
  "calls (snd (search_documents e coll query document_ids n_results))
     = calls coll @ [Query [query] n_results (where_filter_of document_ids)]
 \<and> entries (snd (search_documents e coll query document_ids n_results)) = entries coll
 \<and> fst (search_documents e coll query document_ids n_results)
     = (case index_query e (entries coll) [query] n_results (where_filter_of document_ids) of
          Inl x \<Rightarrow> Inl x
        | Inr results \<Rightarrow>
            Inr \<lparr>sr_chunks = first_or_empty (res_documents results),
                 sr_ids = first_or_empty (res_ids results),
                 sr_metadatas = first_or_empty (res_metadatas results)\<rparr>)
 \<and> get_all_chunks_for_documents e coll [] = (Inr [], coll)
 \<and> calls (snd (get_all_chunks_for_documents e coll (d # ds)))
     = calls coll @ [Get (DocumentIdIn (d # ds))]"
  by (simp add: search_documents_def collection_query_def get_all_chunks_for_documents_def
        collection_get_def Let_def split: sum.splits option.splits)

theorem retrieval_functions_forward_witness:
  "calls (snd (search_documents example_env empty_collection ''machine learning''
                 (Some [''test_e2e_doc'']) 5))
     = [Query [''machine learning''] 5 (Some (DocumentIdIn [''test_e2e_doc'']))]
 \<and> fst (search_documents example_env empty_collection ''machine learning''
           (Some [''test_e2e_doc'']) 5)
     = Inr \<lparr>sr_chunks = [], sr_ids = [], sr_metadatas = []\<rparr>"
  using retrieval_functions_forward
    [of example_env empty_collection "''machine learning''" "Some [''test_e2e_doc'']" 5]
  by (simp add: example_env_def empty_collection_def)

text \<open>
  Claim C7 as stated fails: a query with an empty text and \<open>n_results\<close> equal to 0 is not
  rejected by \<open>search_documents\<close>; it is forwarded to the index as it is, and with an index
  that answers, the function returns its answer.
\<close>

theorem search_documents_forwards_empty_query:
  "calls (snd (search_documents example_env empty_collection [] None 0)) = [Query [[]] 0 None]
 \<and> fst (search_documents example_env empty_collection [] None 0)
     = Inr \<lparr>sr_chunks = [], sr_ids = [], sr_metadatas = []\<rparr>"
  by (simp add: search_documents_def collection_query_def example_env_def
        empty_collection_def Let_def)

text \<open>
  Claim C10. Calling \<open>search_documents\<close> with \<open>document_ids\<close> equal to an empty list behaves
  as calling it with no \<open>document_ids\<close>: the same result and the same state, and the one
  \<open>query\<close> call on the index carries no filter, so that the search runs over every document
  of the store.
\<close>

theorem search_documents_empty_ids:
  "search_documents e coll query (Some []) n_results
     = search_documents e coll query None n_results
 \<and> calls (snd (search_documents e coll query (Some []) n_results))
     = calls coll @ [Query [query] n_results None]"
  by (simp add: search_documents_def collection_query_def split: sum.splits)

text \<open>With chunks of two documents in the store, both searches return chunks of both.\<close>

theorem search_documents_empty_ids_witness:
  "fst (search_documents example_env
          (snd (store_document_chunks example_env
                  (snd (store_document_chunks example_env empty_collection ''one'' [''alpha''] None))
                  ''two'' [''beta''] None))
          ''machine learning'' (Some []) 10)
     = fst (search_documents example_env
          (snd (store_document_chunks example_env
                  (snd (store_document_chunks example_env empty_collection ''one'' [''alpha''] None))
                  ''two'' [''beta''] None))
          ''machine learning'' None 10)
 \<and> sr_chunks (projr (fst (search_documents example_env
          (snd (store_document_chunks example_env
                  (snd (store_document_chunks example_env empty_collection ''one'' [''alpha''] None))
                  ''two'' [''beta''] None))
          ''machine learning'' (Some []) 10)))
     = [''alpha'', ''beta'']"
proof -
  let ?coll = "snd (store_document_chunks example_env
                  (snd (store_document_chunks example_env empty_collection ''one'' [''alpha''] None))
                  ''two'' [''beta''] None)"
  have "sr_chunks (projr (fst (search_documents example_env ?coll ''machine learning'' (Some []) 10)))
          = [''alpha'', ''beta'']"
    by code_simp
  with search_documents_empty_ids [of example_env ?coll "''machine learning''" 10]
  show ?thesis by simp
qed

section \<open>Claims about the document processor\<close>

text \<open>
  Claim C9. For every text that is empty or consists only of whitespace, \<open>chunk_text\<close>
  returns an empty sequence and raises nothing, whatever \<open>chunk_size\<close> and \<open>chunk_overlap\<close>
  are and whatever the splitter would do with them.
\<close>

theorem chunk_text_blank:
  assumes "\<forall>c\<in>set text. isspace c"
  shows "chunk_text e text chunk_size chunk_overlap = Inr []"
  using assms by (simp add: chunk_text_def strip_blank)

text \<open>A splitter that raises on every call is never reached.\<close>

theorem chunk_text_blank_witness:
  "chunk_text (example_env\<lparr>splitter := (\<lambda>sz ov t. Inl (ValueError ''overlap larger than size''))\<rparr>)
     [CHR '' '', CHR 0x0A, CHR 0x09] 10 20 = Inr []
 \<and> chunk_text (example_env\<lparr>splitter := (\<lambda>sz ov t. Inl (ValueError ''overlap larger than size''))\<rparr>)
     [] 10 20 = Inr []"
  using chunk_text_blank [of "[CHR '' '', CHR 0x0A, CHR 0x09]"] chunk_text_blank [of "[]"]
  by (simp add: isspace_def)

text \<open>
  Claim C2. For every document whose text the extractor returns, and whose chunking does
  not itself raise the error of the length check, \<open>process_document\<close> fails with
  \<open>DocumentTooShort\<close> exactly when the extracted text is empty or shorter than 100
  characters, so that a text of 100 characters or more proceeds; and when it fails so, it
  has made no call on the index and the store is as it was.
\<close>

theorem process_document_too_short:
  assumes "extract_text_from_pdf e file_path = Inr text"
      and "splitter e (CHUNK_SIZE e) (CHUNK_OVERLAP e) text \<noteq> Inl DocumentTooShort"
  shows "(fst (process_document e coll document_id file_path) = Inl DocumentTooShort
            \<longleftrightarrow> text = [] \<or> length text < 100)
       \<and> (text = [] \<or> length text < 100
            \<longrightarrow> process_document e coll document_id file_path = (Inl DocumentTooShort, coll))"
proof -
  have short: "process_document e coll document_id file_path = (Inl DocumentTooShort, coll)"
    if "text = [] \<or> length text < 100"
    using that assms(1) by (auto simp add: process_document_def)
  have long: "fst (process_document e coll document_id file_path) \<noteq> Inl DocumentTooShort"
    if "\<not> (text = [] \<or> length text < 100)"
  proof -
    have c: "chunk_text e text (CHUNK_SIZE e) (CHUNK_OVERLAP e) \<noteq> Inl DocumentTooShort"
      using chunk_text_cases [of e "text" "CHUNK_SIZE e" "CHUNK_OVERLAP e"] assms(2) by auto
    show ?thesis
      using that c assms(1)
      by (auto simp add: process_document_def split: sum.splits prod.splits)
  qed
  from short long show ?thesis by auto
qed

text \<open>A page of 99 characters is too short; a page of 100 characters is not.\<close>

theorem process_document_too_short_witness:
  "process_document (pdf_env [Inr (replicate 99 (CHR ''x''))]) empty_collection ''doc'' example_path
     = (Inl DocumentTooShort, empty_collection)
 \<and> fst (process_document (pdf_env [Inr (replicate 100 (CHR ''x''))]) empty_collection ''doc''
          example_path)
     = Inr \<lparr>chunks_count = 1, ingest_status = ''success''\<rparr>"
proof -
  let ?s = "pdf_env [Inr (replicate 99 (CHR ''x''))]"
  let ?l = "pdf_env [Inr (replicate 100 (CHR ''x''))]"
  have ts: "extract_text_from_pdf ?s example_path = Inr (replicate 99 (CHR ''x''))"
    by code_simp
  have hs: "splitter ?s (CHUNK_SIZE ?s) (CHUNK_OVERLAP ?s) (replicate 99 (CHR ''x''))
              \<noteq> Inl DocumentTooShort"
    by (simp add: pdf_env_def example_env_def)
  have ls: "length (replicate 99 (CHR ''x'')) < (100::nat)"
    by simp
  have "fst (process_document ?l empty_collection ''doc'' example_path)
          = Inr \<lparr>chunks_count = 1, ingest_status = ''success''\<rparr>"
    by code_simp
  with process_document_too_short [OF ts hs, of empty_collection "''doc''"] ls
  show ?thesis by simp
qed

text \<open>
  Claim C8, as amended. As long as the \<open>print\<close> call of its \<open>except Exception\<close> handler does
  not raise, \<open>extract_text_from_pdf\<close> does not raise, for every input path: if the source
  does not exist (then no line is printed) or cannot be opened, or the extraction of a
  page fails, it returns the empty string; otherwise it returns the extracted text of
  every page in page order, with a blank line between consecutive pages, with the
  whitespace at both ends of the whole removed, which is the empty string when the pages
  hold only whitespace.
\<close>

theorem extract_text_from_pdf_total:
  "((\<forall>m. print_raises e m = None) \<longrightarrow> (\<exists>text. extract_text_from_pdf e pdf_path = Inr text))
 \<and> (open_pdf e (location pdf_path) = Inl (FileNotFoundError m')
      \<longrightarrow> extract_text_from_pdf e pdf_path = Inr [])
 \<and> (open_pdf e (location pdf_path) = Inl x \<and> (\<forall>m. print_raises e m = None)
      \<longrightarrow> extract_text_from_pdf e pdf_path = Inr [])
 \<and> (open_pdf e (location pdf_path) = Inr pages \<and> (\<exists>p\<in>set pages. isl p)
        \<and> (\<forall>m. print_raises e m = None)
      \<longrightarrow> extract_text_from_pdf e pdf_path = Inr [])
 \<and> (open_pdf e (location pdf_path) = Inr (map Inr texts)
      \<longrightarrow> extract_text_from_pdf e pdf_path = Inr (strip (pages_joined texts)))
 \<and> (open_pdf e (location pdf_path) = Inr (map Inr texts)
        \<and> (\<forall>t\<in>set texts. \<forall>c\<in>set t. isspace c)
      \<longrightarrow> extract_text_from_pdf e pdf_path = Inr [])"
proof -
  have caught: "extract_text_from_pdf e pdf_path = Inr []"
    if "try_extract e pdf_path = Inl y" and "\<forall>m. print_raises e m = None" for y
    using that by (cases y) (simp_all add: extract_text_from_pdf_def)
  have t: "\<exists>text. extract_text_from_pdf e pdf_path = Inr text"
    if p: "\<forall>m. print_raises e m = None"
  proof (cases "try_extract e pdf_path")
    case (Inl y)
    then show ?thesis using caught p by blast
  next
    case (Inr extracted)
    then show ?thesis by (simp add: extract_text_from_pdf_def)
  qed
  have n: "extract_text_from_pdf e pdf_path = Inr []"
    if "open_pdf e (location pdf_path) = Inl (FileNotFoundError m')"
    using that by (simp add: extract_text_from_pdf_def try_extract_def)
  have a: "extract_text_from_pdf e pdf_path = Inr []"
    if "open_pdf e (location pdf_path) = Inl x" and p: "\<forall>m. print_raises e m = None"
  proof -
    from that(1) have "try_extract e pdf_path = Inl x" by (simp add: try_extract_def)
    then show ?thesis using p by (rule caught)
  qed
  have b: "extract_text_from_pdf e pdf_path = Inr []"
    if o: "open_pdf e (location pdf_path) = Inr pages" and r: "\<exists>p\<in>set pages. isl p"
      and p: "\<forall>m. print_raises e m = None"
  proof -
    from read_pages_raises [OF r] obtain y where "read_pages pages [] = Inl y" by blast
    with o have "try_extract e pdf_path = Inl y" by (simp add: try_extract_def)
    then show ?thesis using p by (rule caught)
  qed
  have c: "extract_text_from_pdf e pdf_path = Inr (strip (pages_joined texts))"
    if "open_pdf e (location pdf_path) = Inr (map Inr texts)"
    using that by (rule extract_text_from_pdf_texts)
  have d: "extract_text_from_pdf e pdf_path = Inr []"
    if o: "open_pdf e (location pdf_path) = Inr (map Inr texts)"
      and w: "\<forall>t\<in>set texts. \<forall>c\<in>set t. isspace c"
    using c [OF o] strip_blank [OF pages_joined_blank [OF w]] by simp
  from t n a b c d show ?thesis by blast
qed

text \<open>No file, a page whose extraction fails, a blank page, and two pages of text.\<close>

theorem extract_text_from_pdf_total_witness:
  "extract_text_from_pdf example_env example_path = Inr []
 \<and> extract_text_from_pdf (pdf_env [Inr ''Title'', Inl (Exception ''bad stream'')]) example_path
     = Inr []
 \<and> extract_text_from_pdf (pdf_env [Inr [CHR '' '', CHR 0x0A]]) example_path = Inr []
 \<and> extract_text_from_pdf (pdf_env [Inr '' Title'', Inr ''Body '']) example_path
     = Inr (''Title'' @ [CHR 0x0A, CHR 0x0A] @ ''Body'')"
proof -
  let ?p = "pdf_env [Inr '' Title'', Inr ''Body '']"
  let ?q = "pdf_env [Inr ''Title'', Inl (Exception ''bad stream'')]"
  have o: "open_pdf ?p (location example_path) = Inr (map Inr ['' Title'', ''Body ''])"
    by (simp add: pdf_env_def)
  have s: "strip (pages_joined ['' Title'', ''Body '']) = ''Title'' @ [CHR 0x0A, CHR 0x0A] @ ''Body''"
    by code_simp
  have q: "open_pdf ?q (location example_path) = Inr [Inr ''Title'', Inl (Exception ''bad stream'')]"
    and i: "\<exists>p\<in>set [Inr ''Title'', Inl (Exception ''bad stream'')]. isl p"
    and pr: "\<forall>m. print_raises ?q m = None"
    by (simp_all add: pdf_env_def example_env_def)
  have "extract_text_from_pdf example_env example_path = Inr []"
    and "extract_text_from_pdf (pdf_env [Inr [CHR '' '', CHR 0x0A]]) example_path = Inr []"
    by code_simp+
  moreover have "extract_text_from_pdf ?q example_path = Inr []"
    using extract_text_from_pdf_total
            [of ?q example_path _ _ "[Inr ''Title'', Inl (Exception ''bad stream'')]"] q i pr
    by blast
  moreover have "extract_text_from_pdf ?p example_path
                   = Inr (''Title'' @ [CHR 0x0A, CHR 0x0A] @ ''Body'')"
    using extract_text_from_pdf_total [of ?p example_path _ _ _ "['' Title'', ''Body '']"] o s
    by simp
  ultimately show ?thesis by simp
qed

text \<open>
  Claim C8 as stated fails on its last part: the text returned is stripped, so it is not
  the pages' text joined by blank lines when the first page starts, or the last page ends,
  with whitespace.
\<close>

theorem extract_text_from_pdf_strips:
  "\<not> (extract_text_from_pdf (pdf_env [Inr '' Title'', Inr ''Body '']) example_path
        = Inr (pages_joined ['' Title'', ''Body '']))"
  by code_simp

text \<open>
  Where \<open>print\<close> raises, the exception leaves \<open>extract_text_from_pdf\<close>, and with it
  \<open>process_document\<close>, which has then made no call on the index: here a page whose
  extraction fails, with a standard output that cannot encode the line.
\<close>

lemma extract_text_from_pdf_print_raises:
  "extract_text_from_pdf
     ((pdf_env [Inl (Exception ''bad stream'')])\<lparr>print_raises := (\<lambda>m. Some (ValueError ''codec''))\<rparr>)
     example_path
     = Inl (ValueError ''codec'')
 \<and> process_document
     ((pdf_env [Inl (Exception ''bad stream'')])\<lparr>print_raises := (\<lambda>m. Some (ValueError ''codec''))\<rparr>)
     empty_collection ''doc'' example_path
     = (Inl (ValueError ''codec''), empty_collection)"
  by code_simp

end
